theory Spec2Isabelle
  imports Main "HOL-Library.Word"
begin

section \<open>vsgGIS: gdal\_utils.cpp\<close>

text \<open>
  A shallow embedding of \<^verbatim>\<open>src/vsgGIS/gdal_utils.cpp\<close>: the two dataset
  compatibility tests and the typed image factory \<^verbatim>\<open>createImage2D\<close>.
  The spec calls them \<^verbatim>\<open>projectionsCompatible\<close>, \<^verbatim>\<open>fullyCompatible\<close> and
  \<^verbatim>\<open>createTypedBuffer2D\<close>; the definitions keep the names of the source.
\<close>

subsection \<open>Doubles\<close>

text \<open>
  A C++ \<^verbatim>\<open>double\<close> is its IEEE 754 binary64 bit pattern: sign (bit 63), biased
  exponent (bits 62..52) and fraction (bits 51..0). The source only compares doubles
  with each other by \<^verbatim>\<open>!=\<close> and with the constant \<^verbatim>\<open>0.0\<close> by \<^verbatim>\<open><\<close> and
  \<^verbatim>\<open>>\<close>, so these comparisons are written out on the bit pattern: a NaN is
  unequal to everything and unordered, and the two zeros are equal.
\<close>

type_synonym double = "64 word"

definition double_sign :: "double \<Rightarrow> bool" where
  "double_sign d = (unat d div 2 ^ 63 = 1)"

definition double_exponent :: "double \<Rightarrow> nat" where
  "double_exponent d = (unat d div 2 ^ 52) mod 2 ^ 11"

definition double_fraction :: "double \<Rightarrow> nat" where
  "double_fraction d = unat d mod 2 ^ 52"

definition double_isnan :: "double \<Rightarrow> bool" where
  "double_isnan d = (double_exponent d = 2047 \<and> double_fraction d \<noteq> 0)"

definition double_iszero :: "double \<Rightarrow> bool" where
  "double_iszero d = (double_exponent d = 0 \<and> double_fraction d = 0)"

text \<open>\<^verbatim>\<open>a == b\<close> and \<^verbatim>\<open>a != b\<close> on doubles.\<close>

definition double_eq :: "double \<Rightarrow> double \<Rightarrow> bool" where
  "double_eq a b =
     (if double_isnan a then False
      else if double_isnan b then False
      else if double_iszero a then double_iszero b
      else a = b)"

definition double_ne :: "double \<Rightarrow> double \<Rightarrow> bool" where
  "double_ne a b = (\<not> double_eq a b)"

text \<open>\<^verbatim>\<open>scale < 0.0\<close> and \<^verbatim>\<open>scale > 0.0\<close>.\<close>

definition double_lt_zero :: "double \<Rightarrow> bool" where
  "double_lt_zero d = (if double_isnan d then False
                       else if double_iszero d then False
                       else double_sign d)"

definition double_gt_zero :: "double \<Rightarrow> bool" where
  "double_gt_zero d = (if double_isnan d then False
                       else if double_iszero d then False
                       else \<not> double_sign d)"

subsection \<open>Datasets\<close>

text \<open>
  Modelled from the spec: \<^verbatim>\<open>GDALDataset\<close> belongs to GDAL and is not under src/. The
  spec has a dataset as an opaque handle that exposes a spatial reference string, which
  may be absent, the raster width and height, and a transform of 6 doubles whose read
  succeeds or fails. The source
  reaches a dataset through a C++ reference and calls four of its methods:
  \<^verbatim>\<open>GetProjectionRef\<close>, \<^verbatim>\<open>GetRasterXSize\<close>, \<^verbatim>\<open>GetRasterYSize\<close> and
  \<^verbatim>\<open>GetGeoTransform\<close>. A dataset is the record of what these methods answer, and a
  reference is the address of the object in a store, so that \<^verbatim>\<open>&lhs == &rhs\<close> is the
  equality of two addresses and two references to one object read the same record.
  The methods are reads of the object: the functions below do not change the store, and
  two calls of one method on one object return the same answer.

  \<^verbatim>\<open>GetProjectionRef\<close> returns a \<^verbatim>\<open>const char*\<close>: \<open>None\<close> is the null pointer,
  \<open>Some p\<close> the address of a NUL-terminated string held in \<open>cstrings\<close>.
  \<^verbatim>\<open>GetGeoTransform\<close> returns a \<^verbatim>\<open>CPLErr\<close> and fills the array of 6 doubles it is
  given; the array is a function of the index, read at 0..5 only.
\<close>

type_synonym addr = nat

datatype CPLErr = CE_None | CE_Debug | CE_Warning | CE_Failure | CE_Fatal

record GDALDataset =
  projectionRef :: "addr option"
  rasterXSize :: int
  rasterYSize :: int
  geoTransformErr :: CPLErr
  geoTransform :: "nat \<Rightarrow> double"

record world =
  datasets :: "addr \<Rightarrow> GDALDataset"
  cstrings :: "addr \<Rightarrow> string"

definition GetProjectionRef :: "world \<Rightarrow> addr \<Rightarrow> addr option" where
  "GetProjectionRef w this = projectionRef (datasets w this)"

definition GetRasterXSize :: "world \<Rightarrow> addr \<Rightarrow> int" where
  "GetRasterXSize w this = rasterXSize (datasets w this)"

definition GetRasterYSize :: "world \<Rightarrow> addr \<Rightarrow> int" where
  "GetRasterYSize w this = rasterYSize (datasets w this)"

definition GetGeoTransform :: "world \<Rightarrow> addr \<Rightarrow> CPLErr \<times> (nat \<Rightarrow> double)" where
  "GetGeoTransform w this = (geoTransformErr (datasets w this), geoTransform (datasets w this))"

text \<open>
  \<^verbatim>\<open>std::strcmp\<close>: the difference of the first two bytes that differ, read as
  unsigned chars, where the end of a string is its terminating NUL (byte 0); a NUL
  inside the list ends the string there.
\<close>

fun strcmp :: "string \<Rightarrow> string \<Rightarrow> int" where
  "strcmp [] [] = 0"
| "strcmp [] (y # ys) = - int (of_char y)"
| "strcmp (x # xs) [] = int (of_char x)"
| "strcmp (x # xs) (y # ys) =
     (if x \<noteq> y then int (of_char x) - int (of_char y)
      else if (of_char x :: nat) = 0 then 0
      else strcmp xs ys)"

subsection \<open>compatibleDatasetProjections\<close>

text \<open>
  Lines 30 to 45. Both \<^verbatim>\<open>lhs_projectionRef\<close> and \<^verbatim>\<open>rhs_projectionRef\<close> are read
  from \<^verbatim>\<open>lhs\<close>, as the source has it.
\<close>

definition compatibleDatasetProjections :: "world \<Rightarrow> addr \<Rightarrow> addr \<Rightarrow> bool" where
  "compatibleDatasetProjections w lhs rhs =
     (if lhs = rhs then True
      else
        let lhs_projectionRef = GetProjectionRef w lhs;
            rhs_projectionRef = GetProjectionRef w lhs
        in if lhs_projectionRef = rhs_projectionRef then True
           else (case (lhs_projectionRef, rhs_projectionRef) of
                   (Some l, Some r) \<Rightarrow> strcmp (cstrings w l) (cstrings w r) = 0
                 | _ \<Rightarrow> False))"

subsection \<open>compatibleDatasetProjectionsTransformAndSizes\<close>

text \<open>The loop of lines 72 to 79, from index \<open>i\<close> on.\<close>

function transforms_loop :: "nat \<Rightarrow> (nat \<Rightarrow> double) \<Rightarrow> (nat \<Rightarrow> double) \<Rightarrow> bool" where
  "transforms_loop i lhs_GeoTransform rhs_GeoTransform =
     (if i < 6 then
        (if double_ne (lhs_GeoTransform i) (rhs_GeoTransform i) then False
         else transforms_loop (i + 1) lhs_GeoTransform rhs_GeoTransform)
      else True)"
  by pat_completeness auto
termination
  by (relation "measure (\<lambda>(i, l, r). 6 - i)") auto

declare transforms_loop.simps [simp del]

text \<open>Lines 62 to 64: the number of datasets whose transform was read with \<^verbatim>\<open>CE_None\<close>.\<close>

definition numberWithValidTransforms :: "CPLErr \<Rightarrow> CPLErr \<Rightarrow> nat" where
  "numberWithValidTransforms lhs_err rhs_err =
     (let n = 0;
          n = (if lhs_err = CE_None then n + 1 else n);
          n = (if rhs_err = CE_None then n + 1 else n)
      in n)"

definition compatibleDatasetProjectionsTransformAndSizes :: "world \<Rightarrow> addr \<Rightarrow> addr \<Rightarrow> bool" where
  "compatibleDatasetProjectionsTransformAndSizes w lhs rhs =
     (if \<not> compatibleDatasetProjections w lhs rhs then False
      else if GetRasterXSize w lhs \<noteq> GetRasterXSize w rhs
              \<or> GetRasterYSize w lhs \<noteq> GetRasterYSize w rhs then False
      else
        let (lhs_err, lhs_GeoTransform) = GetGeoTransform w lhs;
            (rhs_err, rhs_GeoTransform) = GetGeoTransform w rhs;
            n = numberWithValidTransforms lhs_err rhs_err
        in if n = 0 then True
           else if n = 1 then False
           else transforms_loop 0 lhs_GeoTransform rhs_GeoTransform)"

text \<open>Two datasets of 512 by 512 pixels and a third whose transform cannot be read.\<close>

definition example_dataset :: "addr option \<Rightarrow> CPLErr \<Rightarrow> (nat \<Rightarrow> double) \<Rightarrow> GDALDataset" where
  "example_dataset p e t =
     \<lparr>projectionRef = p, rasterXSize = 512, rasterYSize = 512,
      geoTransformErr = e, geoTransform = t\<rparr>"

definition example_world :: world where
  "example_world =
     \<lparr>datasets = (\<lambda>a. if a = 1 then example_dataset None CE_None (\<lambda>i. 0)
                      else if a = 2 then example_dataset (Some 10) CE_None (\<lambda>i. 0)
                      else example_dataset (Some 20) CE_Failure (\<lambda>i. 0)),
      cstrings = (\<lambda>p. if p = 10 then ''EPSG:4326'' else ''EPSG:3857'')\<rparr>"

subsection \<open>Scalar types and their limits\<close>

text \<open>
  The seven element types the factory instantiates its templates at, and a value of one
  of them. Integers are words of their width (\<^verbatim>\<open>int16_t\<close> and \<^verbatim>\<open>int32_t\<close> in two's
  complement), a \<^verbatim>\<open>float\<close> is its IEEE 754 binary32 bit pattern.
\<close>

datatype ctype = T_uint8 | T_uint16 | T_int16 | T_uint32 | T_int32 | T_float | T_double

datatype scalar =
    UInt8 "8 word"
  | UInt16 "16 word"
  | Int16 "16 word"
  | UInt32 "32 word"
  | Int32 "32 word"
  | Float "32 word"
  | Double double

fun ctype_of :: "scalar \<Rightarrow> ctype" where
  "ctype_of (UInt8 _) = T_uint8"
| "ctype_of (UInt16 _) = T_uint16"
| "ctype_of (Int16 _) = T_int16"
| "ctype_of (UInt32 _) = T_uint32"
| "ctype_of (Int32 _) = T_int32"
| "ctype_of (Float _) = T_float"
| "ctype_of (Double _) = T_double"

text \<open>The number an integer value stands for (0 for the two floating types).\<close>

fun integer_value :: "scalar \<Rightarrow> int" where
  "integer_value (UInt8 x) = uint x"
| "integer_value (UInt16 x) = uint x"
| "integer_value (Int16 x) = sint x"
| "integer_value (UInt32 x) = uint x"
| "integer_value (Int32 x) = sint x"
| "integer_value (Float _) = 0"
| "integer_value (Double _) = 0"

text \<open>
  \<^verbatim>\<open>std::numeric_limits<T>\<close> of the C++ standard library: \<^verbatim>\<open>is_integer\<close>,
  \<^verbatim>\<open>min()\<close> and \<^verbatim>\<open>max()\<close>. For the floating types \<^verbatim>\<open>min()\<close> is the smallest
  positive normal number and \<^verbatim>\<open>max()\<close> the largest finite one.
\<close>

fun is_integer :: "ctype \<Rightarrow> bool" where
  "is_integer T_float = False"
| "is_integer T_double = False"
| "is_integer _ = True"

fun numeric_limits_min :: "ctype \<Rightarrow> scalar" where
  "numeric_limits_min T_uint8 = UInt8 0"
| "numeric_limits_min T_uint16 = UInt16 0"
| "numeric_limits_min T_int16 = Int16 0x8000"
| "numeric_limits_min T_uint32 = UInt32 0"
| "numeric_limits_min T_int32 = Int32 0x80000000"
| "numeric_limits_min T_float = Float 0x00800000"
| "numeric_limits_min T_double = Double 0x0010000000000000"

fun numeric_limits_max :: "ctype \<Rightarrow> scalar" where
  "numeric_limits_max T_uint8 = UInt8 0xFF"
| "numeric_limits_max T_uint16 = UInt16 0xFFFF"
| "numeric_limits_max T_int16 = Int16 0x7FFF"
| "numeric_limits_max T_uint32 = UInt32 0xFFFFFFFF"
| "numeric_limits_max T_int32 = Int32 0x7FFFFFFF"
| "numeric_limits_max T_float = Float 0x7F7FFFFF"
| "numeric_limits_max T_double = Double 0x7FEFFFFFFFFFFFFF"

text \<open>\<^verbatim>\<open>static_cast<T>(0)\<close>: the integer literal 0 as a \<open>T\<close>.\<close>

fun static_cast_0 :: "ctype \<Rightarrow> scalar" where
  "static_cast_0 T_uint8 = UInt8 0"
| "static_cast_0 T_uint16 = UInt16 0"
| "static_cast_0 T_int16 = Int16 0"
| "static_cast_0 T_uint32 = UInt32 0"
| "static_cast_0 T_int32 = Int32 0"
| "static_cast_0 T_float = Float 0"
| "static_cast_0 T_double = Double 0"

subsection \<open>Conversions from double\<close>

text \<open>
  What is undefined behaviour in C++ on the paths of the factory: an index outside an
  array, and a conversion of a double to an integer type that cannot hold it. The model
  names both.
\<close>

datatype fault = IndexOutOfRange nat | ConversionOutOfRange

text \<open>
  \<open>round_shift x k\<close> is \<open>x / 2^k\<close> rounded to the nearest integer, ties to even: the
  default rounding of IEEE 754.
\<close>

definition round_shift :: "nat \<Rightarrow> nat \<Rightarrow> nat" where
  "round_shift x k =
     (let q = x div 2 ^ k; r = x mod 2 ^ k; half = 2 ^ k div 2
      in if k = 0 then x
         else if r > half \<or> (r = half \<and> odd q) then q + 1 else q)"

text \<open>
  \<^verbatim>\<open>static_cast<float>(d)\<close>, on the bit patterns. A normal double with exponent
  field \<open>e\<close> and fraction \<open>m\<close> is \<open>(2^52 + m) * 2^(e - 1075)\<close>. A float has 23
  fraction bits and exponent bias 127, so its exponent field is \<open>e - 896\<close>; below 1
  the result is subnormal (a multiple of \<open>2^-149\<close>), at 255 or above it is an infinity.
  A carry out of the rounded fraction moves into the exponent field. A subnormal double
  is smaller than half the smallest float and becomes a zero. A NaN stays a NaN: it
  becomes a quiet NaN with the upper 22 bits of its payload, as the conversion
  instructions of x86-64 and AArch64 do.
\<close>

definition float_of_double :: "double \<Rightarrow> 32 word" where
  "float_of_double d =
     (let s = (if double_sign d then 2 ^ 31 else 0 :: nat);
          e = double_exponent d;
          m = double_fraction d;
          significand = 2 ^ 52 + m
      in word_of_nat
           (if e = 2047 then
              (if m = 0 then s + 255 * 2 ^ 23
               else s + 255 * 2 ^ 23 + 2 ^ 22 + (m div 2 ^ 29) mod 2 ^ 22)
            else if e = 0 then s
            else if 897 \<le> e then
              (let bits = (e - 897) * 2 ^ 23 + round_shift significand 29
               in if 255 * 2 ^ 23 \<le> bits then s + 255 * 2 ^ 23 else s + bits)
            else s + round_shift significand (29 + (897 - e))))"

text \<open>
  The integer part of a double, towards zero; \<open>None\<close> for an infinity or a NaN.
\<close>

definition double_trunc :: "double \<Rightarrow> int option" where
  "double_trunc d =
     (let e = double_exponent d;
          significand = 2 ^ 52 + double_fraction d;
          magnitude = (if e < 1023 then 0
                       else if 1075 \<le> e then significand * 2 ^ (e - 1075)
                       else significand div 2 ^ (1075 - e))
      in if e = 2047 then None
         else Some (if double_sign d then - int magnitude else int magnitude))"

text \<open>
  \<^verbatim>\<open>static_cast<T>(scale)\<close> for a double \<^verbatim>\<open>scale\<close>. To an integer type the value is
  truncated, and the conversion is undefined when \<open>T\<close> cannot hold the result.
\<close>

fun static_cast :: "ctype \<Rightarrow> double \<Rightarrow> fault + scalar" where
  "static_cast T_float d = Inr (Float (float_of_double d))"
| "static_cast T_double d = Inr (Double d)"
| "static_cast T d =
     (case double_trunc d of
        None \<Rightarrow> Inl ConversionOutOfRange
      | Some n \<Rightarrow>
          if integer_value (numeric_limits_min T) \<le> n \<and> n \<le> integer_value (numeric_limits_max T)
          then Inr (case T of
                      T_uint8 \<Rightarrow> UInt8 (word_of_int n)
                    | T_uint16 \<Rightarrow> UInt16 (word_of_int n)
                    | T_int16 \<Rightarrow> Int16 (word_of_int n)
                    | T_uint32 \<Rightarrow> UInt32 (word_of_int n)
                    | _ \<Rightarrow> Int32 (word_of_int n))
          else Inl ConversionOutOfRange)"

subsection \<open>default\_value\<close>

text \<open>Lines 82 to 95, the template at element type \<open>T\<close>.\<close>

definition default_value :: "ctype \<Rightarrow> double \<Rightarrow> fault + scalar" where
  "default_value T scale =
     (if is_integer T then
        (if double_lt_zero scale then Inr (numeric_limits_min T)
         else if double_gt_zero scale then Inr (numeric_limits_max T)
         else Inr (static_cast_0 T))
      else static_cast T scale)"

subsection \<open>Vectors, arrays and formats\<close>

text \<open>
  Modelled from the spec: \<^verbatim>\<open>vsg::dvec4\<close>, the vector templates \<^verbatim>\<open>vsg::t_vec2\<close>,
  \<^verbatim>\<open>t_vec3\<close> and \<^verbatim>\<open>t_vec4\<close>, \<^verbatim>\<open>vsg::Array2D\<close> and \<^verbatim>\<open>VkFormat\<close> belong to
  VulkanSceneGraph and Vulkan and are not under src/. The spec has the default value as
  a vector of 4 doubles with the components 0..3, and the buffer as a 2D array of width
  times height elements of a scalar or small vector type, every element initialised to
  the fill value, tagged with a format.

  \<open>dvec4_at v i\<close> is component \<open>i\<close> of the vector: it stores 4 doubles, and an
  index of 4 or more is outside of them.
\<close>

datatype dvec4 = DVec4 double double double double

fun dvec4_at :: "dvec4 \<Rightarrow> nat \<Rightarrow> fault + double" where
  "dvec4_at (DVec4 x y z w) i =
     (if i = 0 then Inr x
      else if i = 1 then Inr y
      else if i = 2 then Inr z
      else if i = 3 then Inr w
      else Inl (IndexOutOfRange i))"

text \<open>
  \<open>dvec4_read past v i\<close> is the expression \<^verbatim>\<open>v[i]\<close> as it is evaluated:
  \<^verbatim>\<open>operator[]\<close> returns \<^verbatim>\<open>value[i]\<close> and does not check the index, so an index of 4
  or more reads the double that lies \<open>i - 4\<close> places after the vector in memory. What
  lies there is not known to the program: it is the parameter \<open>past\<close> of every function
  that reads a vector. The read is undefined behaviour in C++; the model keeps the value
  it returns and logs the index.

  A computation of the factory returns its value together with the indices it has read
  out of range, in the order of the reads, or ends in a conversion fault.
\<close>

definition dvec4_read :: "(nat \<Rightarrow> double) \<Rightarrow> dvec4 \<Rightarrow> nat \<Rightarrow> double \<times> nat list" where
  "dvec4_read past v i =
     (case dvec4_at v i of
        Inr x \<Rightarrow> (x, [])
      | Inl _ \<Rightarrow> (past (i - 4), [i]))"

type_synonym 'a logged = "fault + 'a \<times> nat list"

definition returns :: "'a \<Rightarrow> 'a logged" where
  "returns x = Inr (x, [])"

definition and_then :: "'a logged \<Rightarrow> ('a \<Rightarrow> 'b logged) \<Rightarrow> 'b logged" where
  "and_then m f =
     (case m of
        Inl e \<Rightarrow> Inl e
      | Inr (x, reads) \<Rightarrow>
          (case f x of
             Inl e \<Rightarrow> Inl e
           | Inr (y, later) \<Rightarrow> Inr (y, reads @ later)))"

datatype element =
    Scalar scalar
  | Vec2 scalar scalar
  | Vec3 scalar scalar scalar
  | Vec4 scalar scalar scalar scalar

fun scalars_of :: "element \<Rightarrow> scalar list" where
  "scalars_of (Scalar a) = [a]"
| "scalars_of (Vec2 a b) = [a, b]"
| "scalars_of (Vec3 a b c) = [a, b, c]"
| "scalars_of (Vec4 a b c d) = [a, b, c, d]"

text \<open>The formats the factory names, out of the Vulkan enumeration.\<close>

datatype VkFormat =
    VK_FORMAT_R8_UNORM
  | VK_FORMAT_R16_UNORM
  | VK_FORMAT_R16_SNORM
  | VK_FORMAT_R32_UINT
  | VK_FORMAT_R32_SINT
  | VK_FORMAT_R32_SFLOAT
  | VK_FORMAT_R64_SFLOAT
  | VK_FORMAT_R8G8_UNORM
  | VK_FORMAT_R16G16_UNORM
  | VK_FORMAT_R16G16_SNORM
  | VK_FORMAT_R32G32_UINT
  | VK_FORMAT_R32G32_SINT
  | VK_FORMAT_R32G32_SFLOAT
  | VK_FORMAT_R64G64_SFLOAT
  | VK_FORMAT_R8G8B8_UNORM
  | VK_FORMAT_R16G16B16_UNORM
  | VK_FORMAT_R16G16B16_SNORM
  | VK_FORMAT_R32G32B32_UINT
  | VK_FORMAT_R32G32B32_SINT
  | VK_FORMAT_R32G32B32_SFLOAT
  | VK_FORMAT_R64G64B64_SFLOAT
  | VK_FORMAT_R8G8B8A8_UNORM
  | VK_FORMAT_R16G16B16A16_UNORM
  | VK_FORMAT_R16G16B16A16_SNORM
  | VK_FORMAT_R32G32B32A32_UINT
  | VK_FORMAT_R32G32B32A32_SINT
  | VK_FORMAT_R32G32B32A32_SFLOAT
  | VK_FORMAT_R64G64B64A64_SFLOAT

text \<open>The number of channels of a format and the bits of each, as its name says.\<close>

fun format_channels :: "VkFormat \<Rightarrow> nat" where
  "format_channels VK_FORMAT_R8_UNORM = 1"
| "format_channels VK_FORMAT_R16_UNORM = 1"
| "format_channels VK_FORMAT_R16_SNORM = 1"
| "format_channels VK_FORMAT_R32_UINT = 1"
| "format_channels VK_FORMAT_R32_SINT = 1"
| "format_channels VK_FORMAT_R32_SFLOAT = 1"
| "format_channels VK_FORMAT_R64_SFLOAT = 1"
| "format_channels VK_FORMAT_R8G8_UNORM = 2"
| "format_channels VK_FORMAT_R16G16_UNORM = 2"
| "format_channels VK_FORMAT_R16G16_SNORM = 2"
| "format_channels VK_FORMAT_R32G32_UINT = 2"
| "format_channels VK_FORMAT_R32G32_SINT = 2"
| "format_channels VK_FORMAT_R32G32_SFLOAT = 2"
| "format_channels VK_FORMAT_R64G64_SFLOAT = 2"
| "format_channels VK_FORMAT_R8G8B8_UNORM = 3"
| "format_channels VK_FORMAT_R16G16B16_UNORM = 3"
| "format_channels VK_FORMAT_R16G16B16_SNORM = 3"
| "format_channels VK_FORMAT_R32G32B32_UINT = 3"
| "format_channels VK_FORMAT_R32G32B32_SINT = 3"
| "format_channels VK_FORMAT_R32G32B32_SFLOAT = 3"
| "format_channels VK_FORMAT_R64G64B64_SFLOAT = 3"
| "format_channels VK_FORMAT_R8G8B8A8_UNORM = 4"
| "format_channels VK_FORMAT_R16G16B16A16_UNORM = 4"
| "format_channels VK_FORMAT_R16G16B16A16_SNORM = 4"
| "format_channels VK_FORMAT_R32G32B32A32_UINT = 4"
| "format_channels VK_FORMAT_R32G32B32A32_SINT = 4"
| "format_channels VK_FORMAT_R32G32B32A32_SFLOAT = 4"
| "format_channels VK_FORMAT_R64G64B64A64_SFLOAT = 4"

fun format_bits :: "VkFormat \<Rightarrow> nat" where
  "format_bits VK_FORMAT_R8_UNORM = 8"
| "format_bits VK_FORMAT_R16_UNORM = 16"
| "format_bits VK_FORMAT_R16_SNORM = 16"
| "format_bits VK_FORMAT_R32_UINT = 32"
| "format_bits VK_FORMAT_R32_SINT = 32"
| "format_bits VK_FORMAT_R32_SFLOAT = 32"
| "format_bits VK_FORMAT_R64_SFLOAT = 64"
| "format_bits VK_FORMAT_R8G8_UNORM = 8"
| "format_bits VK_FORMAT_R16G16_UNORM = 16"
| "format_bits VK_FORMAT_R16G16_SNORM = 16"
| "format_bits VK_FORMAT_R32G32_UINT = 32"
| "format_bits VK_FORMAT_R32G32_SINT = 32"
| "format_bits VK_FORMAT_R32G32_SFLOAT = 32"
| "format_bits VK_FORMAT_R64G64_SFLOAT = 64"
| "format_bits VK_FORMAT_R8G8B8_UNORM = 8"
| "format_bits VK_FORMAT_R16G16B16_UNORM = 16"
| "format_bits VK_FORMAT_R16G16B16_SNORM = 16"
| "format_bits VK_FORMAT_R32G32B32_UINT = 32"
| "format_bits VK_FORMAT_R32G32B32_SINT = 32"
| "format_bits VK_FORMAT_R32G32B32_SFLOAT = 32"
| "format_bits VK_FORMAT_R64G64B64_SFLOAT = 64"
| "format_bits VK_FORMAT_R8G8B8A8_UNORM = 8"
| "format_bits VK_FORMAT_R16G16B16A16_UNORM = 16"
| "format_bits VK_FORMAT_R16G16B16A16_SNORM = 16"
| "format_bits VK_FORMAT_R32G32B32A32_UINT = 32"
| "format_bits VK_FORMAT_R32G32B32A32_SINT = 32"
| "format_bits VK_FORMAT_R32G32B32A32_SFLOAT = 32"
| "format_bits VK_FORMAT_R64G64B64A64_SFLOAT = 64"

text \<open>The numeric kind of the channels of a format, the last part of its name.\<close>

datatype numeric_kind = UNORM | SNORM | UINT | SINT | SFLOAT

fun format_kind :: "VkFormat \<Rightarrow> numeric_kind" where
  "format_kind VK_FORMAT_R8_UNORM = UNORM"
| "format_kind VK_FORMAT_R16_UNORM = UNORM"
| "format_kind VK_FORMAT_R16_SNORM = SNORM"
| "format_kind VK_FORMAT_R32_UINT = UINT"
| "format_kind VK_FORMAT_R32_SINT = SINT"
| "format_kind VK_FORMAT_R32_SFLOAT = SFLOAT"
| "format_kind VK_FORMAT_R64_SFLOAT = SFLOAT"
| "format_kind VK_FORMAT_R8G8_UNORM = UNORM"
| "format_kind VK_FORMAT_R16G16_UNORM = UNORM"
| "format_kind VK_FORMAT_R16G16_SNORM = SNORM"
| "format_kind VK_FORMAT_R32G32_UINT = UINT"
| "format_kind VK_FORMAT_R32G32_SINT = SINT"
| "format_kind VK_FORMAT_R32G32_SFLOAT = SFLOAT"
| "format_kind VK_FORMAT_R64G64_SFLOAT = SFLOAT"
| "format_kind VK_FORMAT_R8G8B8_UNORM = UNORM"
| "format_kind VK_FORMAT_R16G16B16_UNORM = UNORM"
| "format_kind VK_FORMAT_R16G16B16_SNORM = SNORM"
| "format_kind VK_FORMAT_R32G32B32_UINT = UINT"
| "format_kind VK_FORMAT_R32G32B32_SINT = SINT"
| "format_kind VK_FORMAT_R32G32B32_SFLOAT = SFLOAT"
| "format_kind VK_FORMAT_R64G64B64_SFLOAT = SFLOAT"
| "format_kind VK_FORMAT_R8G8B8A8_UNORM = UNORM"
| "format_kind VK_FORMAT_R16G16B16A16_UNORM = UNORM"
| "format_kind VK_FORMAT_R16G16B16A16_SNORM = SNORM"
| "format_kind VK_FORMAT_R32G32B32A32_UINT = UINT"
| "format_kind VK_FORMAT_R32G32B32A32_SINT = SINT"
| "format_kind VK_FORMAT_R32G32B32A32_SFLOAT = SFLOAT"
| "format_kind VK_FORMAT_R64G64B64A64_SFLOAT = SFLOAT"

record Data =
  array_width :: nat
  array_height :: nat
  array_data :: "element list"
  layout_format :: VkFormat

text \<open>
  \<^verbatim>\<open>vsg::Array2D<E>::create(w, h, value, vsg::Data::Layout{format})\<close> with
  \<^verbatim>\<open>uint32_t\<close> sizes: \<open>w * h\<close> elements, each a copy of \<open>value\<close>.
\<close>

definition Array2D_create :: "32 word \<Rightarrow> 32 word \<Rightarrow> element \<Rightarrow> VkFormat \<Rightarrow> Data" where
  "Array2D_create w h v f =
     \<lparr>array_width = unat w, array_height = unat h,
      array_data = replicate (unat w * unat h) v, layout_format = f\<rparr>"

subsection \<open>default\_vec2, default\_vec3, default\_vec4\<close>

text \<open>
  Lines 97 to 113. \<open>default_at past T v i\<close> is the argument
  \<^verbatim>\<open>default_value<T>(value[i])\<close> of the vector's constructor. \<open>default_vec4\<close> reads
  \<^verbatim>\<open>value[4]\<close> for its last component, as the source has it.
\<close>

definition default_at :: "(nat \<Rightarrow> double) \<Rightarrow> ctype \<Rightarrow> dvec4 \<Rightarrow> nat \<Rightarrow> scalar logged" where
  "default_at past T v i =
     (case dvec4_read past v i of
        (x, reads) \<Rightarrow>
          (case default_value T x of
             Inl e \<Rightarrow> Inl e
           | Inr s \<Rightarrow> Inr (s, reads)))"

definition default_vec2 :: "(nat \<Rightarrow> double) \<Rightarrow> ctype \<Rightarrow> dvec4 \<Rightarrow> element logged" where
  "default_vec2 past T v =
     and_then (default_at past T v 0) (\<lambda>a.
     and_then (default_at past T v 1) (\<lambda>b.
     returns (Vec2 a b)))"

definition default_vec3 :: "(nat \<Rightarrow> double) \<Rightarrow> ctype \<Rightarrow> dvec4 \<Rightarrow> element logged" where
  "default_vec3 past T v =
     and_then (default_at past T v 0) (\<lambda>a.
     and_then (default_at past T v 1) (\<lambda>b.
     and_then (default_at past T v 2) (\<lambda>c.
     returns (Vec3 a b c))))"

definition default_vec4 :: "(nat \<Rightarrow> double) \<Rightarrow> ctype \<Rightarrow> dvec4 \<Rightarrow> element logged" where
  "default_vec4 past T v =
     and_then (default_at past T v 0) (\<lambda>a.
     and_then (default_at past T v 1) (\<lambda>b.
     and_then (default_at past T v 2) (\<lambda>c.
     and_then (default_at past T v 4) (\<lambda>d.
     returns (Vec4 a b c d)))))"

subsection \<open>createImage2D\<close>

text \<open>
  \<^verbatim>\<open>GDALDataType\<close> is GDAL's enumeration of pixel types; the factory names seven of
  its values, the others are the unknown type and the four complex types.
\<close>

datatype GDALDataType =
    GDT_Unknown | GDT_Byte | GDT_UInt16 | GDT_Int16 | GDT_UInt32 | GDT_Int32
  | GDT_Float32 | GDT_Float64 | GDT_CInt16 | GDT_CInt32 | GDT_CFloat32 | GDT_CFloat64

type_synonym TypeCompontents = "GDALDataType \<times> int"

type_synonym CreateFunction = "(nat \<Rightarrow> double) \<Rightarrow> 32 word \<Rightarrow> 32 word \<Rightarrow> dvec4 \<Rightarrow> Data logged"

text \<open>
  The four shapes of the lambdas of lines 122 to 152: the fill value is
  \<^verbatim>\<open>default_value<T>(d[0])\<close>, \<^verbatim>\<open>default_vec2<T>(d)\<close>, \<^verbatim>\<open>default_vec3<T>(d)\<close> or
  \<^verbatim>\<open>default_vec4<T>(d)\<close>, and the array is created with it and the format. The first
  parameter is the memory after the lambda's copy \<^verbatim>\<open>d\<close> of the default vector.
\<close>

definition create_scalar :: "ctype \<Rightarrow> VkFormat \<Rightarrow> CreateFunction" where
  "create_scalar T f = (\<lambda>past w h d.
     and_then (default_at past T d 0) (\<lambda>v. returns (Array2D_create w h (Scalar v) f)))"

definition create_vec2 :: "ctype \<Rightarrow> VkFormat \<Rightarrow> CreateFunction" where
  "create_vec2 T f = (\<lambda>past w h d.
     and_then (default_vec2 past T d) (\<lambda>v. returns (Array2D_create w h v f)))"

definition create_vec3 :: "ctype \<Rightarrow> VkFormat \<Rightarrow> CreateFunction" where
  "create_vec3 T f = (\<lambda>past w h d.
     and_then (default_vec3 past T d) (\<lambda>v. returns (Array2D_create w h v f)))"

definition create_vec4 :: "ctype \<Rightarrow> VkFormat \<Rightarrow> CreateFunction" where
  "create_vec4 T f = (\<lambda>past w h d.
     and_then (default_vec4 past T d) (\<lambda>v. returns (Array2D_create w h v f)))"

text \<open>The map of lines 121 to 152, entry by entry in the order of the source.\<close>

definition createMap :: "TypeCompontents \<rightharpoonup> CreateFunction" where
  "createMap =
     [(GDT_Byte, 1) \<mapsto> create_scalar T_uint8 VK_FORMAT_R8_UNORM,
      (GDT_UInt16, 1) \<mapsto> create_scalar T_uint16 VK_FORMAT_R16_UNORM,
      (GDT_Int16, 1) \<mapsto> create_scalar T_int16 VK_FORMAT_R16_SNORM,
      (GDT_UInt32, 1) \<mapsto> create_scalar T_uint32 VK_FORMAT_R32_UINT,
      (GDT_Int32, 1) \<mapsto> create_scalar T_int32 VK_FORMAT_R32_SINT,
      (GDT_Float32, 1) \<mapsto> create_scalar T_float VK_FORMAT_R32_SFLOAT,
      (GDT_Float64, 1) \<mapsto> create_scalar T_double VK_FORMAT_R64_SFLOAT,
      (GDT_Byte, 2) \<mapsto> create_vec2 T_uint8 VK_FORMAT_R8G8_UNORM,
      (GDT_UInt16, 2) \<mapsto> create_vec2 T_uint16 VK_FORMAT_R16G16_UNORM,
      (GDT_Int16, 2) \<mapsto> create_vec2 T_int16 VK_FORMAT_R16G16_SNORM,
      (GDT_UInt32, 2) \<mapsto> create_vec2 T_uint32 VK_FORMAT_R32G32_UINT,
      (GDT_Int32, 2) \<mapsto> create_vec2 T_int32 VK_FORMAT_R32G32_SINT,
      (GDT_Float32, 2) \<mapsto> create_vec2 T_float VK_FORMAT_R32G32_SFLOAT,
      (GDT_Float64, 2) \<mapsto> create_vec2 T_double VK_FORMAT_R64G64_SFLOAT,
      (GDT_Byte, 3) \<mapsto> create_vec3 T_uint8 VK_FORMAT_R8G8B8_UNORM,
      (GDT_UInt16, 3) \<mapsto> create_vec3 T_uint16 VK_FORMAT_R16G16B16_UNORM,
      (GDT_Int16, 3) \<mapsto> create_vec3 T_int16 VK_FORMAT_R16G16B16_SNORM,
      (GDT_UInt32, 3) \<mapsto> create_vec3 T_uint32 VK_FORMAT_R32G32B32_UINT,
      (GDT_Int32, 3) \<mapsto> create_vec3 T_int32 VK_FORMAT_R32G32B32_SINT,
      (GDT_Float32, 3) \<mapsto> create_vec3 T_float VK_FORMAT_R32G32B32_SFLOAT,
      (GDT_Float64, 3) \<mapsto> create_vec3 T_double VK_FORMAT_R64G64B64_SFLOAT,
      (GDT_Byte, 4) \<mapsto> create_vec4 T_uint8 VK_FORMAT_R8G8B8A8_UNORM,
      (GDT_UInt16, 4) \<mapsto> create_vec4 T_uint16 VK_FORMAT_R16G16B16A16_UNORM,
      (GDT_Int16, 4) \<mapsto> create_vec4 T_int16 VK_FORMAT_R16G16B16A16_SNORM,
      (GDT_UInt32, 4) \<mapsto> create_vec4 T_uint32 VK_FORMAT_R32G32B32A32_UINT,
      (GDT_Int32, 4) \<mapsto> create_vec4 T_int32 VK_FORMAT_R32G32B32A32_SINT,
      (GDT_Float32, 4) \<mapsto> create_vec4 T_float VK_FORMAT_R32G32B32A32_SFLOAT,
      (GDT_Float64, 4) \<mapsto> create_vec4 T_double VK_FORMAT_R64G64B64A64_SFLOAT]"

text \<open>
  Lines 116 to 161. The \<^verbatim>\<open>int\<close> sizes become the \<^verbatim>\<open>uint32_t\<close> parameters of the
  create function, which is their value modulo \<open>2^32\<close>. \<open>None\<close> is the empty
  \<^verbatim>\<open>ref_ptr\<close>, \<open>Some data\<close> the array that was created. The function has no
  \<^verbatim>\<open>throw\<close>. \<open>past\<close> is the memory after the copy of \<^verbatim>\<open>def\<close> that the create
  function receives.
\<close>

definition createImage2D ::
  "(nat \<Rightarrow> double) \<Rightarrow> int \<Rightarrow> int \<Rightarrow> int \<Rightarrow> GDALDataType \<Rightarrow> dvec4 \<Rightarrow> Data option logged" where
  "createImage2D past width height numComponents dataType def =
     (case createMap (dataType, numComponents) of
        None \<Rightarrow> returns None
      | Some create \<Rightarrow>
          and_then (create past (word_of_int width) (word_of_int height) def)
            (\<lambda>data. returns (Some data)))"

text \<open>The element type that stores a pixel type, for the seven types of the map.\<close>

fun element_type :: "GDALDataType \<Rightarrow> ctype option" where
  "element_type GDT_Byte = Some T_uint8"
| "element_type GDT_UInt16 = Some T_uint16"
| "element_type GDT_Int16 = Some T_int16"
| "element_type GDT_UInt32 = Some T_uint32"
| "element_type GDT_Int32 = Some T_int32"
| "element_type GDT_Float32 = Some T_float"
| "element_type GDT_Float64 = Some T_double"
| "element_type _ = None"

fun sizeof_bits :: "ctype \<Rightarrow> nat" where
  "sizeof_bits T_uint8 = 8"
| "sizeof_bits T_uint16 = 16"
| "sizeof_bits T_int16 = 16"
| "sizeof_bits T_uint32 = 32"
| "sizeof_bits T_int32 = 32"
| "sizeof_bits T_float = 32"
| "sizeof_bits T_double = 64"

text \<open>
  The format the spec associates with a pair of a pixel type and a number of components,
  as a table of its own: \<open>n\<close> channels, each as wide as the pixel type, unsigned
  normalised for the 8 and 16 bit unsigned types, signed normalised for the signed 16 bit
  type, unsigned and signed integer for the 32 bit integer types and float for the two
  floating types.
\<close>

fun pixel_kind :: "GDALDataType \<Rightarrow> numeric_kind option" where
  "pixel_kind GDT_Byte = Some UNORM"
| "pixel_kind GDT_UInt16 = Some UNORM"
| "pixel_kind GDT_Int16 = Some SNORM"
| "pixel_kind GDT_UInt32 = Some UINT"
| "pixel_kind GDT_Int32 = Some SINT"
| "pixel_kind GDT_Float32 = Some SFLOAT"
| "pixel_kind GDT_Float64 = Some SFLOAT"
| "pixel_kind _ = None"

fun documented_format :: "GDALDataType \<Rightarrow> int \<Rightarrow> VkFormat option" where
  "documented_format GDT_Byte n =
     (if n = 1 then Some VK_FORMAT_R8_UNORM
      else if n = 2 then Some VK_FORMAT_R8G8_UNORM
      else if n = 3 then Some VK_FORMAT_R8G8B8_UNORM
      else if n = 4 then Some VK_FORMAT_R8G8B8A8_UNORM
      else None)"
| "documented_format GDT_UInt16 n =
     (if n = 1 then Some VK_FORMAT_R16_UNORM
      else if n = 2 then Some VK_FORMAT_R16G16_UNORM
      else if n = 3 then Some VK_FORMAT_R16G16B16_UNORM
      else if n = 4 then Some VK_FORMAT_R16G16B16A16_UNORM
      else None)"
| "documented_format GDT_Int16 n =
     (if n = 1 then Some VK_FORMAT_R16_SNORM
      else if n = 2 then Some VK_FORMAT_R16G16_SNORM
      else if n = 3 then Some VK_FORMAT_R16G16B16_SNORM
      else if n = 4 then Some VK_FORMAT_R16G16B16A16_SNORM
      else None)"
| "documented_format GDT_UInt32 n =
     (if n = 1 then Some VK_FORMAT_R32_UINT
      else if n = 2 then Some VK_FORMAT_R32G32_UINT
      else if n = 3 then Some VK_FORMAT_R32G32B32_UINT
      else if n = 4 then Some VK_FORMAT_R32G32B32A32_UINT
      else None)"
| "documented_format GDT_Int32 n =
     (if n = 1 then Some VK_FORMAT_R32_SINT
      else if n = 2 then Some VK_FORMAT_R32G32_SINT
      else if n = 3 then Some VK_FORMAT_R32G32B32_SINT
      else if n = 4 then Some VK_FORMAT_R32G32B32A32_SINT
      else None)"
| "documented_format GDT_Float32 n =
     (if n = 1 then Some VK_FORMAT_R32_SFLOAT
      else if n = 2 then Some VK_FORMAT_R32G32_SFLOAT
      else if n = 3 then Some VK_FORMAT_R32G32B32_SFLOAT
      else if n = 4 then Some VK_FORMAT_R32G32B32A32_SFLOAT
      else None)"
| "documented_format GDT_Float64 n =
     (if n = 1 then Some VK_FORMAT_R64_SFLOAT
      else if n = 2 then Some VK_FORMAT_R64G64_SFLOAT
      else if n = 3 then Some VK_FORMAT_R64G64B64_SFLOAT
      else if n = 4 then Some VK_FORMAT_R64G64B64A64_SFLOAT
      else None)"
| "documented_format _ n = None"

text \<open>The memory after the default vector in the examples: the double 1.0, over and over.\<close>

definition example_past :: "nat \<Rightarrow> double" where
  "example_past = (\<lambda>i. 0x3FF0000000000000)"

section \<open>Properties\<close>

subsection \<open>Evaluation rules\<close>

lemmas double_simps =
  double_eq_def double_ne_def double_isnan_def double_iszero_def double_exponent_def
  double_fraction_def double_sign_def double_lt_zero_def double_gt_zero_def

lemmas example_simps =
  example_world_def example_dataset_def GetProjectionRef_def GetRasterXSize_def
  GetRasterYSize_def GetGeoTransform_def

subsection \<open>Doubles\<close>

lemma double_eq_self: "double_eq a a = (\<not> double_isnan a)"
  by (simp add: double_eq_def)

lemma double_eq_zero: "double_eq s 0 = double_iszero s"
  by (auto simp add: double_eq_def double_isnan_def double_iszero_def double_exponent_def
      double_fraction_def)

text \<open>The two zeros have different bit patterns and are equal.\<close>

lemma double_eq_signed_zeros: "double_eq 0 0x8000000000000000"
  by (simp add: double_simps)

subsection \<open>The compatibility tests\<close>

text \<open>
  Both pointers of \<open>compatibleDatasetProjections\<close> are read from \<open>lhs\<close>, so they are
  equal and the function returns true whatever \<open>rhs\<close> is.
\<close>

lemma compatibleDatasetProjections_True: "compatibleDatasetProjections w lhs rhs"
  by (simp add: compatibleDatasetProjections_def)

lemma loop_done: "\<not> i < 6 \<Longrightarrow> transforms_loop i l r"
  by (simp add: transforms_loop.simps)

lemma loop_step: "i < 6 \<Longrightarrow> transforms_loop i l r = (double_eq (l i) (r i) \<and> transforms_loop (Suc i) l r)"
  by (subst transforms_loop.simps) (simp add: double_ne_def)

lemma from_Suc: "P i \<Longrightarrow> (\<forall>j. Suc i \<le> j \<and> j < n \<longrightarrow> P j) = (\<forall>j. i \<le> j \<and> j < n \<longrightarrow> P j)"
proof
  assume p: "P i" and h: "\<forall>j. Suc i \<le> j \<and> j < n \<longrightarrow> P j"
  show "\<forall>j. i \<le> j \<and> j < n \<longrightarrow> P j"
  proof (intro allI impI)
    fix j assume "i \<le> j \<and> j < n"
    then have "j = i \<or> (Suc i \<le> j \<and> j < n)" by arith
    with p h show "P j" by blast
  qed
next
  assume h: "\<forall>j. i \<le> j \<and> j < n \<longrightarrow> P j"
  show "\<forall>j. Suc i \<le> j \<and> j < n \<longrightarrow> P j"
    using h by (simp add: Suc_le_eq)
qed

lemma transforms_loop_iff:
  "transforms_loop i l r = (\<forall>j. i \<le> j \<and> j < 6 \<longrightarrow> double_eq (l j) (r j))"
proof (induction i l r rule: transforms_loop.induct)
  case (1 i l r)
  show ?case
  proof (cases "i < 6")
    case False
    then have none: "\<And>j. \<not> (i \<le> j \<and> j < 6)" by arith
    have "transforms_loop i l r" using False by (rule loop_done)
    with none show ?thesis by blast
  next
    case True
    show ?thesis
    proof (cases "double_eq (l i) (r i)")
      case False
      have "\<not> transforms_loop i l r"
        using True False by (simp add: loop_step)
      moreover have "\<not> (\<forall>j. i \<le> j \<and> j < 6 \<longrightarrow> double_eq (l j) (r j))"
        using True False by blast
      ultimately show ?thesis by simp
    next
      case eq: True
      have "transforms_loop i l r = transforms_loop (Suc i) l r"
        using True eq by (simp add: loop_step)
      also have "\<dots> = (\<forall>j. Suc i \<le> j \<and> j < 6 \<longrightarrow> double_eq (l j) (r j))"
        using "1.IH" True eq by (simp add: double_ne_def)
      also have "\<dots> = (\<forall>j. i \<le> j \<and> j < 6 \<longrightarrow> double_eq (l j) (r j))"
        using eq by (rule from_Suc)
      finally show ?thesis .
    qed
  qed
qed

lemma transforms_loop_0: "transforms_loop 0 l r = (\<forall>i<6. double_eq (l i) (r i))"
  by (simp add: transforms_loop_iff)

text \<open>
  A transform with a NaN in it is unequal to itself, so a dataset that reports one is not
  fully compatible with itself.
\<close>

lemma not_reflexive_with_nan:
  assumes "fst (GetGeoTransform w a) = CE_None" and "i < 6"
    and "double_isnan (snd (GetGeoTransform w a) i)"
  shows "\<not> compatibleDatasetProjectionsTransformAndSizes w a a"
proof -
  have "\<not> double_eq (snd (GetGeoTransform w a) i) (snd (GetGeoTransform w a) i)"
    using assms(3) by (simp add: double_eq_self)
  with assms(2) have "\<not> (\<forall>j<6. double_eq (snd (GetGeoTransform w a) j) (snd (GetGeoTransform w a) j))"
    by blast
  with assms(1) show ?thesis
    by (auto simp add: compatibleDatasetProjectionsTransformAndSizes_def
        numberWithValidTransforms_def transforms_loop_0 split: prod.split)
qed

subsection \<open>The default value\<close>

lemma default_value_returns: "\<exists>v. default_value T s = Inr v \<and> ctype_of v = T"
  by (cases T) (simp_all add: default_value_def)

lemma integer_limits:
  assumes "is_integer T" and "ctype_of v = T"
  shows "integer_value (numeric_limits_min T) \<le> integer_value v
       \<and> integer_value v \<le> integer_value (numeric_limits_max T)"
proof (cases v)
  case (UInt8 x)
  have "uint x < 2 ^ 8" using uint_lt2p [of x] by simp
  with UInt8 assms show ?thesis by auto
next
  case (UInt16 x)
  have "uint x < 2 ^ 16" using uint_lt2p [of x] by simp
  with UInt16 assms show ?thesis by auto
next
  case (Int16 x)
  have "- (2 ^ 15) \<le> sint x" "sint x < 2 ^ 15" using sint_ge [of x] sint_lt [of x] by simp_all
  with Int16 assms show ?thesis by auto
next
  case (UInt32 x)
  have "uint x < 2 ^ 32" using uint_lt2p [of x] by simp
  with UInt32 assms show ?thesis by auto
next
  case (Int32 x)
  have "- (2 ^ 31) \<le> sint x" "sint x < 2 ^ 31" using sint_ge [of x] sint_lt [of x] by simp_all
  with Int32 assms show ?thesis by auto
next
  case (Float x)
  with assms show ?thesis by auto
next
  case (Double x)
  with assms show ?thesis by auto
qed

lemma dvec4_at_defined: "(\<exists>v. dvec4_at d i = Inr v) = (i < 4)"
  by (cases d) auto

subsection \<open>Reading the default vector\<close>

text \<open>
  A read at an index below 4 returns a component and logs nothing; the read at index 4
  returns the double after the vector and logs the index.
\<close>

lemma dvec4_read_in_range: "i < 4 \<Longrightarrow> \<exists>x. dvec4_read past d i = (x, [])"
  by (cases d) (simp add: dvec4_read_def)

lemma dvec4_read_4: "dvec4_read past d 4 = (past 0, [4])"
  by (cases d) (simp add: dvec4_read_def)

lemma default_at_in_range:
  assumes "i < 4"
  shows "\<exists>v. default_at past T d i = Inr (v, []) \<and> ctype_of v = T"
proof -
  from dvec4_read_in_range [OF assms] obtain x where x: "dvec4_read past d i = (x, [])" ..
  from default_value_returns [of T x] obtain v where "default_value T x = Inr v" "ctype_of v = T"
    by blast
  with x show ?thesis by (simp add: default_at_def)
qed

lemma default_at_4:
  "\<exists>v. default_at past T d 4 = Inr (v, [4]) \<and> default_value T (past 0) = Inr v \<and> ctype_of v = T"
proof -
  from default_value_returns [of T "past 0"] obtain v
    where "default_value T (past 0) = Inr v" "ctype_of v = T" by blast
  then show ?thesis by (simp add: default_at_def dvec4_read_4)
qed

lemma default_vec2_returns:
  "\<exists>a b. default_vec2 past T d = Inr (Vec2 a b, []) \<and> ctype_of a = T \<and> ctype_of b = T"
proof -
  obtain a where a: "default_at past T d 0 = Inr (a, [])" "ctype_of a = T"
    using default_at_in_range [of 0 past T d] by auto
  obtain b where b: "default_at past T d (Suc 0) = Inr (b, [])" "ctype_of b = T"
    using default_at_in_range [of "Suc 0" past T d] by auto
  have "default_vec2 past T d = Inr (Vec2 a b, [])"
    by (simp add: default_vec2_def and_then_def returns_def a b)
  with a b show ?thesis by blast
qed

lemma default_vec3_returns:
  "\<exists>a b c. default_vec3 past T d = Inr (Vec3 a b c, [])
         \<and> ctype_of a = T \<and> ctype_of b = T \<and> ctype_of c = T"
proof -
  obtain a where a: "default_at past T d 0 = Inr (a, [])" "ctype_of a = T"
    using default_at_in_range [of 0 past T d] by auto
  obtain b where b: "default_at past T d (Suc 0) = Inr (b, [])" "ctype_of b = T"
    using default_at_in_range [of "Suc 0" past T d] by auto
  obtain c where c: "default_at past T d 2 = Inr (c, [])" "ctype_of c = T"
    using default_at_in_range [of 2 past T d] by auto
  have "default_vec3 past T d = Inr (Vec3 a b c, [])"
    by (simp add: default_vec3_def and_then_def returns_def a b c)
  with a b c show ?thesis by blast
qed

lemma default_vec4_returns:
  "\<exists>a b c e. default_vec4 past T d = Inr (Vec4 a b c e, [4])
         \<and> ctype_of a = T \<and> ctype_of b = T \<and> ctype_of c = T \<and> ctype_of e = T
         \<and> default_value T (past 0) = Inr e"
proof -
  obtain a where a: "default_at past T d 0 = Inr (a, [])" "ctype_of a = T"
    using default_at_in_range [of 0 past T d] by auto
  obtain b where b: "default_at past T d (Suc 0) = Inr (b, [])" "ctype_of b = T"
    using default_at_in_range [of "Suc 0" past T d] by auto
  obtain c where c: "default_at past T d 2 = Inr (c, [])" "ctype_of c = T"
    using default_at_in_range [of 2 past T d] by auto
  obtain e where e: "default_at past T d 4 = Inr (e, [4])" "default_value T (past 0) = Inr e"
    "ctype_of e = T"
    using default_at_4 [of past T d] by auto
  have "default_vec4 past T d = Inr (Vec4 a b c e, [4])"
    by (simp add: default_vec4_def and_then_def returns_def a b c e)
  with a b c e show ?thesis by blast
qed

lemma default_vec4_ignores_component_3:
  "default_vec4 past T (DVec4 x y z c3') = default_vec4 past T (DVec4 x y z c3)"
  by (simp add: default_vec4_def default_at_def dvec4_read_def)

subsection \<open>The factory\<close>

text \<open>What each of the four shapes of create function returns.\<close>

lemma create_scalar_returns:
  "\<exists>v. create_scalar T f past w h d = Inr (Array2D_create w h (Scalar v) f, [])
       \<and> ctype_of v = T"
proof -
  obtain v where v: "default_at past T d 0 = Inr (v, [])" "ctype_of v = T"
    using default_at_in_range [of 0 past T d] by auto
  have "create_scalar T f past w h d = Inr (Array2D_create w h (Scalar v) f, [])"
    by (simp add: create_scalar_def and_then_def returns_def v)
  with v show ?thesis by blast
qed

lemma create_vec2_returns:
  "\<exists>a b. create_vec2 T f past w h d = Inr (Array2D_create w h (Vec2 a b) f, [])
         \<and> ctype_of a = T \<and> ctype_of b = T"
proof -
  from default_vec2_returns [of past T d] obtain a b
    where v: "default_vec2 past T d = Inr (Vec2 a b, [])" "ctype_of a = T" "ctype_of b = T"
    by blast
  have "create_vec2 T f past w h d = Inr (Array2D_create w h (Vec2 a b) f, [])"
    by (simp add: create_vec2_def and_then_def returns_def v)
  with v show ?thesis by blast
qed

lemma create_vec3_returns:
  "\<exists>a b c. create_vec3 T f past w h d = Inr (Array2D_create w h (Vec3 a b c) f, [])
         \<and> ctype_of a = T \<and> ctype_of b = T \<and> ctype_of c = T"
proof -
  from default_vec3_returns [of past T d] obtain a b c
    where v: "default_vec3 past T d = Inr (Vec3 a b c, [])"
      "ctype_of a = T" "ctype_of b = T" "ctype_of c = T"
    by blast
  have "create_vec3 T f past w h d = Inr (Array2D_create w h (Vec3 a b c) f, [])"
    by (simp add: create_vec3_def and_then_def returns_def v)
  with v show ?thesis by blast
qed

lemma create_vec4_returns:
  "\<exists>a b c e. create_vec4 T f past w h d = Inr (Array2D_create w h (Vec4 a b c e) f, [4])
         \<and> default_vec4 past T d = Inr (Vec4 a b c e, [4])
         \<and> ctype_of a = T \<and> ctype_of b = T \<and> ctype_of c = T \<and> ctype_of e = T
         \<and> default_value T (past 0) = Inr e"
proof -
  from default_vec4_returns [of past T d] obtain a b c e
    where v: "default_vec4 past T d = Inr (Vec4 a b c e, [4])"
      "ctype_of a = T" "ctype_of b = T" "ctype_of c = T" "ctype_of e = T"
      "default_value T (past 0) = Inr e"
    by blast
  have "create_vec4 T f past w h d = Inr (Array2D_create w h (Vec4 a b c e) f, [4])"
    by (simp add: create_vec4_def and_then_def returns_def v)
  with v show ?thesis by blast
qed

text \<open>The entries of the map, with the format of the pair.\<close>

lemma createMap_None_iff:
  "(createMap (t, n) = None) = (element_type t = None \<or> n \<notin> {1, 2, 3, 4})"
  by (cases t) (simp_all add: createMap_def)

lemma createMap_1:
  "element_type t = Some T \<Longrightarrow>
   \<exists>f. createMap (t, 1) = Some (create_scalar T f) \<and> documented_format t 1 = Some f"
  by (cases t) (auto simp add: createMap_def)

lemma createMap_2:
  "element_type t = Some T \<Longrightarrow>
   \<exists>f. createMap (t, 2) = Some (create_vec2 T f) \<and> documented_format t 2 = Some f"
  by (cases t) (auto simp add: createMap_def)

lemma createMap_3:
  "element_type t = Some T \<Longrightarrow>
   \<exists>f. createMap (t, 3) = Some (create_vec3 T f) \<and> documented_format t 3 = Some f"
  by (cases t) (auto simp add: createMap_def)

lemma createMap_4:
  "element_type t = Some T \<Longrightarrow>
   \<exists>f. createMap (t, 4) = Some (create_vec4 T f) \<and> documented_format t 4 = Some f"
  by (cases t) (auto simp add: createMap_def)

text \<open>
  The format of a pair has as many channels as the pair has components, each as wide as
  the element type, of the numeric kind of the pixel type; and a format is known by
  these three.
\<close>

lemma documented_format_attributes:
  assumes "documented_format t n = Some f" and "element_type t = Some T"
  shows "int (format_channels f) = n \<and> format_bits f = sizeof_bits T
       \<and> pixel_kind t = Some (format_kind f)"
  using assms by (cases t) (auto split: if_splits)

lemma unat_size: "unat (word_of_int k :: 32 word) = nat (k mod 2 ^ 32)"
  by (simp add: unat_eq_nat_uint uint_word_of_int)

lemma length_concat_replicate: "length (concat (replicate k xs)) = k * length xs"
  by (induction k) simp_all

lemma set_concat_replicate: "set (concat (replicate k xs)) \<subseteq> set xs"
  by (induction k) auto

lemma createImage2D_unsupported:
  "createMap (t, n) = None \<Longrightarrow> createImage2D past width height n t d = Inr (None, [])"
  by (simp add: createImage2D_def returns_def)

lemma createImage2D_returns_buffer:
  assumes "element_type t = Some T" and "n = 1 \<or> n = 2 \<or> n = 3 \<or> n = 4"
  shows "\<exists>fill f reads.
           createImage2D past width height n t d
             = Inr (Some (Array2D_create (word_of_int width) (word_of_int height) fill f), reads)
         \<and> int (length (scalars_of fill)) = n
         \<and> list_all (\<lambda>s. ctype_of s = T) (scalars_of fill)
         \<and> documented_format t n = Some f"
proof -
  consider "n = 1" | "n = 2" | "n = 3" | "n = 4" using assms(2) by blast
  then show ?thesis
  proof cases
    case 1
    from createMap_1 [OF assms(1)] obtain f
      where f: "createMap (t, 1) = Some (create_scalar T f)" "documented_format t 1 = Some f"
      by blast
    from create_scalar_returns [of T f past "word_of_int width" "word_of_int height" d]
    obtain v where v: "create_scalar T f past (word_of_int width) (word_of_int height) d
        = Inr (Array2D_create (word_of_int width) (word_of_int height) (Scalar v) f, [])"
      "ctype_of v = T" by blast
    have "createImage2D past width height n t d
        = Inr (Some (Array2D_create (word_of_int width) (word_of_int height) (Scalar v) f), [])"
      using 1 f v by (simp add: createImage2D_def and_then_def returns_def)
    moreover have "int (length (scalars_of (Scalar v))) = n"
      "list_all (\<lambda>s. ctype_of s = T) (scalars_of (Scalar v))"
      using 1 v by simp_all
    ultimately show ?thesis using 1 f
      by - (rule exI [of _ "Scalar v"], rule exI [of _ f], rule exI [of _ "[]"], simp)
  next
    case 2
    from createMap_2 [OF assms(1)] obtain f
      where f: "createMap (t, 2) = Some (create_vec2 T f)" "documented_format t 2 = Some f"
      by blast
    from create_vec2_returns [of T f past "word_of_int width" "word_of_int height" d]
    obtain a b where v: "create_vec2 T f past (word_of_int width) (word_of_int height) d
        = Inr (Array2D_create (word_of_int width) (word_of_int height) (Vec2 a b) f, [])"
      "ctype_of a = T" "ctype_of b = T" by blast
    have "createImage2D past width height n t d
        = Inr (Some (Array2D_create (word_of_int width) (word_of_int height) (Vec2 a b) f), [])"
      using 2 f v by (simp add: createImage2D_def and_then_def returns_def)
    moreover have "int (length (scalars_of (Vec2 a b))) = n"
      "list_all (\<lambda>s. ctype_of s = T) (scalars_of (Vec2 a b))"
      using 2 v by simp_all
    ultimately show ?thesis using 2 f
      by - (rule exI [of _ "Vec2 a b"], rule exI [of _ f], rule exI [of _ "[]"], simp)
  next
    case 3
    from createMap_3 [OF assms(1)] obtain f
      where f: "createMap (t, 3) = Some (create_vec3 T f)" "documented_format t 3 = Some f"
      by blast
    from create_vec3_returns [of T f past "word_of_int width" "word_of_int height" d]
    obtain a b c where v: "create_vec3 T f past (word_of_int width) (word_of_int height) d
        = Inr (Array2D_create (word_of_int width) (word_of_int height) (Vec3 a b c) f, [])"
      "ctype_of a = T" "ctype_of b = T" "ctype_of c = T" by blast
    have "createImage2D past width height n t d
        = Inr (Some (Array2D_create (word_of_int width) (word_of_int height) (Vec3 a b c) f), [])"
      using 3 f v by (simp add: createImage2D_def and_then_def returns_def)
    moreover have "int (length (scalars_of (Vec3 a b c))) = n"
      "list_all (\<lambda>s. ctype_of s = T) (scalars_of (Vec3 a b c))"
      using 3 v by simp_all
    ultimately show ?thesis using 3 f
      by - (rule exI [of _ "Vec3 a b c"], rule exI [of _ f], rule exI [of _ "[]"], simp)
  next
    case 4
    from createMap_4 [OF assms(1)] obtain f
      where f: "createMap (t, 4) = Some (create_vec4 T f)" "documented_format t 4 = Some f"
      by blast
    from create_vec4_returns [of T f past "word_of_int width" "word_of_int height" d]
    obtain a b c e where v: "create_vec4 T f past (word_of_int width) (word_of_int height) d
        = Inr (Array2D_create (word_of_int width) (word_of_int height) (Vec4 a b c e) f, [4])"
      "ctype_of a = T" "ctype_of b = T" "ctype_of c = T" "ctype_of e = T" by blast
    have "createImage2D past width height n t d
        = Inr (Some (Array2D_create (word_of_int width) (word_of_int height) (Vec4 a b c e) f), [4])"
      using 4 f v by (simp add: createImage2D_def and_then_def returns_def)
    moreover have "int (length (scalars_of (Vec4 a b c e))) = n"
      "list_all (\<lambda>s. ctype_of s = T) (scalars_of (Vec4 a b c e))"
      using 4 v by simp_all
    ultimately show ?thesis using 4 f
      by - (rule exI [of _ "Vec4 a b c e"], rule exI [of _ f], rule exI [of _ "[4]"], simp)
  qed
qed

text \<open>The out-of-range log: empty up to 3 components, the index 4 with 4 components.\<close>

lemma createImage2D_4_reads:
  assumes "element_type t = Some T"
  shows "\<exists>a b c e f.
           createImage2D past width height 4 t d
             = Inr (Some (Array2D_create (word_of_int width) (word_of_int height)
                            (Vec4 a b c e) f), [4])
         \<and> default_vec4 past T d = Inr (Vec4 a b c e, [4])
         \<and> default_value T (past 0) = Inr e"
proof -
  from createMap_4 [OF assms] obtain f
    where f: "createMap (t, 4) = Some (create_vec4 T f)" by blast
  from create_vec4_returns [of T f past "word_of_int width" "word_of_int height" d]
  obtain a b c e where v: "create_vec4 T f past (word_of_int width) (word_of_int height) d
      = Inr (Array2D_create (word_of_int width) (word_of_int height) (Vec4 a b c e) f, [4])"
    "default_vec4 past T d = Inr (Vec4 a b c e, [4])" "default_value T (past 0) = Inr e"
    by blast
  have "createImage2D past width height 4 t d
      = Inr (Some (Array2D_create (word_of_int width) (word_of_int height) (Vec4 a b c e) f), [4])"
    using f v by (simp add: createImage2D_def and_then_def returns_def)
  with v show ?thesis by blast
qed

lemma createImage2D_4_ignores_component_3:
  assumes "element_type t = Some T"
  shows "createImage2D past width height 4 t (DVec4 x y z c3')
       = createImage2D past width height 4 t (DVec4 x y z c3)"
proof -
  from createMap_4 [OF assms] obtain f
    where f: "createMap (t, 4) = Some (create_vec4 T f)" by blast
  show ?thesis
    by (simp add: createImage2D_def f create_vec4_def
        default_vec4_ignores_component_3 [of past T x y z c3' c3])
qed

lemmas factory_simps =
  createImage2D_def createMap_def create_scalar_def create_vec2_def create_vec3_def
  create_vec4_def default_vec2_def default_vec3_def default_vec4_def default_at_def
  dvec4_read_def default_value_def and_then_def returns_def example_past_def

section \<open>The claims\<close>

text \<open>
  C1. For every two datasets \<open>a\<close> and \<open>b\<close>, \<open>compatibleDatasetProjections\<close> (the
  spec's projectionsCompatible) returns the same boolean for \<open>(a, b)\<close> and for
  \<open>(b, a)\<close>. The source reads both projection pointers from its first argument, so
  both calls return true.
\<close>

theorem projections_symmetric:
  "compatibleDatasetProjections w a b = compatibleDatasetProjections w b a"
  by (simp add: compatibleDatasetProjections_def)

theorem projections_symmetric_witness:
  "compatibleDatasetProjections example_world 1 2 = compatibleDatasetProjections example_world 2 1"
  using projections_symmetric [of example_world 1 2] by simp

text \<open>
  C2. With 4 components the fill value of the fourth channel does not come from component
  3 of the default vector: \<open>default_vec4\<close> reads index 4, which is outside the
  components 0..3. For each of the seven pixel types and all sizes and default vectors the
  call logs the read at index 4 as out of range, the fourth channel is the default value
  of the double that lies after the vector, and changing component 3 changes nothing.
\<close>

theorem fourth_channel_reads_index_4:
  assumes "element_type dataType = Some T"
  shows "(\<exists>a b c d f.
            createImage2D past width height 4 dataType (DVec4 x y z c3)
              = Inr (Some (Array2D_create (word_of_int width) (word_of_int height)
                             (Vec4 a b c d) f), [4])
          \<and> default_vec4 past T (DVec4 x y z c3) = Inr (Vec4 a b c d, [4])
          \<and> default_value T (past 0) = Inr d)
       \<and> dvec4_read past (DVec4 x y z c3) 4 = (past 0, [4])
       \<and> dvec4_at (DVec4 x y z c3) 4 = Inl (IndexOutOfRange 4)
       \<and> (\<forall>i. (\<exists>v. dvec4_at (DVec4 x y z c3) i = Inr v) = (i < 4))
       \<and> createImage2D past width height 4 dataType (DVec4 x y z c3')
           = createImage2D past width height 4 dataType (DVec4 x y z c3)"
proof (intro conjI)
  show "\<exists>a b c d f.
            createImage2D past width height 4 dataType (DVec4 x y z c3)
              = Inr (Some (Array2D_create (word_of_int width) (word_of_int height)
                             (Vec4 a b c d) f), [4])
          \<and> default_vec4 past T (DVec4 x y z c3) = Inr (Vec4 a b c d, [4])
          \<and> default_value T (past 0) = Inr d"
    using createImage2D_4_reads [OF assms] .
  show "dvec4_read past (DVec4 x y z c3) 4 = (past 0, [4])"
    by (rule dvec4_read_4)
  show "dvec4_at (DVec4 x y z c3) 4 = Inl (IndexOutOfRange 4)"
    by simp
  show "\<forall>i. (\<exists>v. dvec4_at (DVec4 x y z c3) i = Inr v) = (i < 4)"
    by (simp add: dvec4_at_defined)
  show "createImage2D past width height 4 dataType (DVec4 x y z c3')
           = createImage2D past width height 4 dataType (DVec4 x y z c3)"
    using assms by (rule createImage2D_4_ignores_component_3)
qed

theorem fourth_channel_reads_index_4_witness:
  "element_type GDT_UInt16 = Some T_uint16
   \<and> createImage2D example_past 16 16 4 GDT_UInt16 (DVec4 0 0 0 0)
       = Inr (Some (Array2D_create 16 16 (Vec4 (UInt16 0) (UInt16 0) (UInt16 0) (UInt16 0xFFFF))
                      VK_FORMAT_R16G16B16A16_UNORM), [4])"
  using fourth_channel_reads_index_4 [of GDT_UInt16 T_uint16 example_past 16 16 0 0 0 0 0]
  by (simp add: factory_simps double_simps)

text \<open>
  C3. For an integer element type \<open>T\<close>, \<open>default_value\<close> returns the minimum of \<open>T\<close>
  when \<open>scale < 0\<close>, the maximum of \<open>T\<close> when \<open>scale > 0\<close> and zero when
  \<open>scale == 0\<close>, whatever the magnitude of \<open>scale\<close>; the minimum and the maximum
  bound every value of \<open>T\<close>. For a floating element type it returns
  \<^verbatim>\<open>static_cast<T>(scale)\<close>: the double rounded to a float, or the double itself.
\<close>

theorem default_value_policy:
  "(is_integer T \<longrightarrow>
       (double_lt_zero scale \<longrightarrow> default_value T scale = Inr (numeric_limits_min T))
     \<and> (double_gt_zero scale \<longrightarrow> default_value T scale = Inr (numeric_limits_max T))
     \<and> (double_eq scale 0 \<longrightarrow> default_value T scale = Inr (static_cast_0 T)
                                 \<and> integer_value (static_cast_0 T) = 0)
     \<and> (\<forall>v. ctype_of v = T \<longrightarrow>
            integer_value (numeric_limits_min T) \<le> integer_value v
          \<and> integer_value v \<le> integer_value (numeric_limits_max T)))
   \<and> (\<not> is_integer T \<longrightarrow> default_value T scale = static_cast T scale)
   \<and> default_value T_float scale = Inr (Float (float_of_double scale))
   \<and> default_value T_double scale = Inr (Double scale)"
proof (intro conjI impI allI)
  assume "is_integer T" "double_lt_zero scale"
  then show "default_value T scale = Inr (numeric_limits_min T)"
    by (simp add: default_value_def)
next
  assume "is_integer T" "double_gt_zero scale"
  then show "default_value T scale = Inr (numeric_limits_max T)"
    by (simp add: default_value_def double_gt_zero_def double_lt_zero_def split: if_splits)
next
  assume "is_integer T" "double_eq scale 0"
  then show "default_value T scale = Inr (static_cast_0 T)"
    by (simp add: default_value_def double_eq_zero double_gt_zero_def double_lt_zero_def)
next
  assume "is_integer T"
  then show "integer_value (static_cast_0 T) = 0"
    by (cases T) simp_all
next
  fix v assume "is_integer T" "ctype_of v = T"
  then show "integer_value (numeric_limits_min T) \<le> integer_value v"
    using integer_limits by blast
next
  fix v assume "is_integer T" "ctype_of v = T"
  then show "integer_value v \<le> integer_value (numeric_limits_max T)"
    using integer_limits by blast
next
  assume "\<not> is_integer T"
  then show "default_value T scale = static_cast T scale"
    by (simp add: default_value_def)
next
  show "default_value T_float scale = Inr (Float (float_of_double scale))"
    by (simp add: default_value_def)
next
  show "default_value T_double scale = Inr (Double scale)"
    by (simp add: default_value_def)
qed

theorem default_value_policy_witness:
  "default_value T_int16 0xBFF0000000000000 = Inr (Int16 0x8000)
   \<and> default_value T_int16 0x3FF0000000000000 = Inr (Int16 0x7FFF)
   \<and> default_value T_int16 0x8000000000000000 = Inr (Int16 0)
   \<and> default_value T_float 0x4004000000000000 = Inr (Float 0x40200000)"
  using default_value_policy [of T_int16 "0xBFF0000000000000"]
    default_value_policy [of T_int16 "0x3FF0000000000000"]
    default_value_policy [of T_int16 "0x8000000000000000"]
    default_value_policy [of T_float "0x4004000000000000"]
  by (simp add: double_simps float_of_double_def round_shift_def)

text \<open>
  C4. For each of the 28 pairs of one of the seven pixel types and 1 to 4 components, and
  all sizes from 0 up to the largest \<^verbatim>\<open>int\<close> and all default vectors,
  \<open>createImage2D\<close> returns a buffer (not the empty result) of \<open>width * height\<close>
  elements, which are \<open>width * height * numComponents\<close> scalars, all of the element type
  of the pixel type, and its format is the one of the pair. The spec has the sizes as
  positive integers, with 0 legal.
\<close>

theorem createImage2D_supported_pairs:
  assumes "element_type dataType = Some T"
    and "numComponents = 1 \<or> numComponents = 2 \<or> numComponents = 3 \<or> numComponents = 4"
    and "0 \<le> width" and "width < 2 ^ 31" and "0 \<le> height" and "height < 2 ^ 31"
  shows "\<exists>buf reads.
           createImage2D past width height numComponents dataType def = Inr (Some buf, reads)
         \<and> length (array_data buf) = nat (width * height)
         \<and> length (concat (map scalars_of (array_data buf)))
             = nat (width * height * numComponents)
         \<and> list_all (\<lambda>s. ctype_of s = T) (concat (map scalars_of (array_data buf)))
         \<and> documented_format dataType numComponents = Some (layout_format buf)"
proof -
  from createImage2D_returns_buffer [OF assms(1) assms(2)] obtain fill f reads
    where r: "createImage2D past width height numComponents dataType def
        = Inr (Some (Array2D_create (word_of_int width) (word_of_int height) fill f), reads)"
      and n: "int (length (scalars_of fill)) = numComponents"
      and T: "list_all (\<lambda>s. ctype_of s = T) (scalars_of fill)"
      and f: "documented_format dataType numComponents = Some f"
    by blast
  let ?buf = "Array2D_create (word_of_int width) (word_of_int height) fill f"
  have w: "unat (word_of_int width :: 32 word) = nat width"
    using assms(3,4) by (simp add: unat_size)
  have h: "unat (word_of_int height :: 32 word) = nat height"
    using assms(5,6) by (simp add: unat_size)
  have size: "nat width * nat height = nat (width * height)"
    using assms(3) by (simp add: nat_mult_distrib)
  have count: "length (array_data ?buf) = nat (width * height)"
    by (simp add: Array2D_create_def w h size)
  have "length (concat (map scalars_of (array_data ?buf)))
      = nat (width * height) * length (scalars_of fill)"
    by (simp add: Array2D_create_def w h size map_replicate_const length_concat_replicate)
  also have "\<dots> = nat (width * height) * nat numComponents"
    using n by auto
  also have "\<dots> = nat (width * height * numComponents)"
    using assms(3,5) by (simp add: nat_mult_distrib)
  finally have scalars: "length (concat (map scalars_of (array_data ?buf)))
      = nat (width * height * numComponents)" .
  have types: "list_all (\<lambda>s. ctype_of s = T) (concat (map scalars_of (array_data ?buf)))"
    using T set_concat_replicate [of "nat (width * height)" "scalars_of fill"]
    by (auto simp add: Array2D_create_def w h size map_replicate_const list_all_iff)
  have tag: "documented_format dataType numComponents = Some (layout_format ?buf)"
    using f by (simp add: Array2D_create_def)
  from r count scalars types tag show ?thesis
    by - (rule exI [of _ ?buf], rule exI [of _ reads], simp)
qed

theorem createImage2D_supported_pairs_witness:
  "\<exists>buf reads.
     createImage2D example_past 2 3 4 GDT_Byte (DVec4 0 0 0 0) = Inr (Some buf, reads)
   \<and> length (array_data buf) = 6
   \<and> length (concat (map scalars_of (array_data buf))) = 24
   \<and> list_all (\<lambda>s. ctype_of s = T_uint8) (concat (map scalars_of (array_data buf)))
   \<and> VK_FORMAT_R8G8B8A8_UNORM = layout_format buf"
  using createImage2D_supported_pairs [of GDT_Byte T_uint8 4 2 3 example_past "DVec4 0 0 0 0"]
  by simp

text \<open>
  C5. For two datasets that pass the projection test and have the same raster width and
  height, \<open>compatibleDatasetProjectionsTransformAndSizes\<close> (the spec's fullyCompatible)
  is decided by the number of the two transforms that were read with \<^verbatim>\<open>CE_None\<close>:
  true for none, false for one, and for two true exactly when the 6 components are
  pairwise equal under \<^verbatim>\<open>==\<close> on doubles, with no tolerance.
\<close>

theorem full_by_transform_count:
  assumes "compatibleDatasetProjections w lhs rhs"
    and "GetRasterXSize w lhs = GetRasterXSize w rhs"
    and "GetRasterYSize w lhs = GetRasterYSize w rhs"
  shows "(length (filter (\<lambda>d. fst (GetGeoTransform w d) = CE_None) [lhs, rhs]) = 0
            \<longrightarrow> compatibleDatasetProjectionsTransformAndSizes w lhs rhs)
       \<and> (length (filter (\<lambda>d. fst (GetGeoTransform w d) = CE_None) [lhs, rhs]) = 1
            \<longrightarrow> \<not> compatibleDatasetProjectionsTransformAndSizes w lhs rhs)
       \<and> (length (filter (\<lambda>d. fst (GetGeoTransform w d) = CE_None) [lhs, rhs]) = 2
            \<longrightarrow> compatibleDatasetProjectionsTransformAndSizes w lhs rhs
                 = (\<forall>i<6. double_eq (snd (GetGeoTransform w lhs) i)
                                   (snd (GetGeoTransform w rhs) i)))"
  using assms
  by (simp add: compatibleDatasetProjectionsTransformAndSizes_def
      numberWithValidTransforms_def transforms_loop_iff split: prod.split)

theorem full_by_transform_count_witness:
  "compatibleDatasetProjectionsTransformAndSizes example_world 1 2
   \<and> \<not> compatibleDatasetProjectionsTransformAndSizes example_world 2 3"
  using full_by_transform_count [of example_world 1 2]
    full_by_transform_count [of example_world 2 3]
  by (simp add: compatibleDatasetProjections_def example_simps double_simps)

text \<open>
  C6. The claim: between two distinct datasets, \<open>compatibleDatasetProjections\<close> returns
  false when exactly one projection pointer is null. The source compares the pointer of
  \<open>lhs\<close> with itself: dataset 1 of the example has a null pointer, dataset 2 has not,
  and the function returns true in both orders.
\<close>

theorem one_null_projection_still_compatible:
  "GetProjectionRef example_world 1 = None
   \<and> GetProjectionRef example_world 2 = Some 10
   \<and> compatibleDatasetProjections example_world 1 2
   \<and> compatibleDatasetProjections example_world 2 1"
  by (simp add: compatibleDatasetProjections_def example_simps)

text \<open>
  C7. Whenever \<open>compatibleDatasetProjectionsTransformAndSizes\<close> returns true for two
  datasets, \<open>compatibleDatasetProjections\<close> returns true for them.
\<close>

theorem full_implies_projections:
  "compatibleDatasetProjectionsTransformAndSizes w a b \<Longrightarrow> compatibleDatasetProjections w a b"
  by (simp add: compatibleDatasetProjectionsTransformAndSizes_def split: if_splits)

theorem full_implies_projections_witness:
  "compatibleDatasetProjectionsTransformAndSizes example_world 1 2
   \<and> compatibleDatasetProjections example_world 1 2"
proof -
  have full: "compatibleDatasetProjectionsTransformAndSizes example_world 1 2"
    by (simp add: compatibleDatasetProjectionsTransformAndSizes_def
        compatibleDatasetProjections_def numberWithValidTransforms_def
        transforms_loop.simps example_simps double_simps)
  from full full_implies_projections [OF full] show ?thesis by simp
qed

text \<open>
  C8. A pair that is not a key of the map (a pixel type other than the seven, or a number
  of components other than 1 to 4) gives the empty result, with nothing read out of
  range. That is the only failure: for every key of the map the call returns a buffer
  that is complete, \<open>array_width * array_height\<close> copies of one fill element with
  \<open>numComponents\<close> scalars of the element type, and the format of the pair. No call ends
  in a fault. Where the fill of the fourth channel comes from is C2.
\<close>

theorem createImage2D_fails_only_unsupported:
  "(createMap (dataType, numComponents) = None) =
       (element_type dataType = None \<or> numComponents \<notin> {1, 2, 3, 4})
   \<and> (createMap (dataType, numComponents) = None \<longrightarrow>
         createImage2D past width height numComponents dataType def = Inr (None, []))
   \<and> (createMap (dataType, numComponents) \<noteq> None \<longrightarrow>
         (\<exists>buf fill reads.
            createImage2D past width height numComponents dataType def = Inr (Some buf, reads)
          \<and> array_width buf = nat (width mod 2 ^ 32)
          \<and> array_height buf = nat (height mod 2 ^ 32)
          \<and> array_data buf = replicate (array_width buf * array_height buf) fill
          \<and> int (length (scalars_of fill)) = numComponents
          \<and> list_all (\<lambda>s. element_type dataType = Some (ctype_of s)) (scalars_of fill)
          \<and> documented_format dataType numComponents = Some (layout_format buf)))
   \<and> (\<forall>e. createImage2D past width height numComponents dataType def \<noteq> Inl e)"
proof -
  have keys: "(createMap (dataType, numComponents) = None) =
       (element_type dataType = None \<or> numComponents \<notin> {1, 2, 3, 4})"
    by (rule createMap_None_iff)
  have empty: "createImage2D past width height numComponents dataType def = Inr (None, [])"
    if "createMap (dataType, numComponents) = None"
    using that by (rule createImage2D_unsupported)
  have buffer: "\<exists>buf fill reads.
            createImage2D past width height numComponents dataType def = Inr (Some buf, reads)
          \<and> array_width buf = nat (width mod 2 ^ 32)
          \<and> array_height buf = nat (height mod 2 ^ 32)
          \<and> array_data buf = replicate (array_width buf * array_height buf) fill
          \<and> int (length (scalars_of fill)) = numComponents
          \<and> list_all (\<lambda>s. element_type dataType = Some (ctype_of s)) (scalars_of fill)
          \<and> documented_format dataType numComponents = Some (layout_format buf)"
    if "createMap (dataType, numComponents) \<noteq> None"
  proof -
    from that keys obtain T where T: "element_type dataType = Some T"
      and n: "numComponents = 1 \<or> numComponents = 2 \<or> numComponents = 3 \<or> numComponents = 4"
      by auto
    from createImage2D_returns_buffer [OF T n] obtain fill f reads
      where r: "createImage2D past width height numComponents dataType def
          = Inr (Some (Array2D_create (word_of_int width) (word_of_int height) fill f), reads)"
        and len: "int (length (scalars_of fill)) = numComponents"
        and ty: "list_all (\<lambda>s. ctype_of s = T) (scalars_of fill)"
        and f: "documented_format dataType numComponents = Some f"
      by blast
    have ty': "list_all (\<lambda>s. element_type dataType = Some (ctype_of s)) (scalars_of fill)"
      using ty T by (simp add: list_all_iff)
    from r len ty' f show ?thesis
      by - (rule exI [of _ "Array2D_create (word_of_int width) (word_of_int height) fill f"],
            rule exI [of _ fill], rule exI [of _ reads],
            simp add: Array2D_create_def unat_size)
  qed
  have no_fault: "createImage2D past width height numComponents dataType def \<noteq> Inl e" for e
  proof (cases "createMap (dataType, numComponents) = None")
    case True
    from empty [OF True] show ?thesis by simp
  next
    case False
    from buffer [OF False] show ?thesis by auto
  qed
  from keys empty buffer no_fault show ?thesis by blast
qed

theorem createImage2D_fails_only_unsupported_witness:
  "createImage2D example_past 4 4 3 GDT_CFloat32 (DVec4 0 0 0 0) = Inr (None, [])
   \<and> createImage2D example_past 4 4 5 GDT_Byte (DVec4 0 0 0 0) = Inr (None, [])
   \<and> (\<exists>buf reads. createImage2D example_past 1 1 4 GDT_Float64 (DVec4 0 0 0 0)
                     = Inr (Some buf, reads)
          \<and> array_data buf = [Vec4 (Double 0) (Double 0) (Double 0) (Double 0x3FF0000000000000)])"
proof -
  have a: "createImage2D example_past 4 4 3 GDT_CFloat32 (DVec4 0 0 0 0) = Inr (None, [])"
    using createImage2D_fails_only_unsupported [of GDT_CFloat32 3 example_past 4 4 "DVec4 0 0 0 0"]
    by simp
  have b: "createImage2D example_past 4 4 5 GDT_Byte (DVec4 0 0 0 0) = Inr (None, [])"
    using createImage2D_fails_only_unsupported [of GDT_Byte 5 example_past 4 4 "DVec4 0 0 0 0"]
    by simp
  have c: "\<exists>buf reads. createImage2D example_past 1 1 4 GDT_Float64 (DVec4 0 0 0 0)
                     = Inr (Some buf, reads)
          \<and> array_data buf = [Vec4 (Double 0) (Double 0) (Double 0) (Double 0x3FF0000000000000)]"
    by (simp add: factory_simps Array2D_create_def)
  from a b c show ?thesis by blast
qed

text \<open>
  C9. For a dataset whose transform is read with \<^verbatim>\<open>CE_None\<close> and whose 6 components
  are each equal to themselves (none is a NaN), both tests return true on the pair of the
  dataset with itself.
\<close>

theorem reflexive_with_consistent_transform:
  assumes "fst (GetGeoTransform w a) = CE_None"
    and "\<forall>i<6. double_eq (snd (GetGeoTransform w a) i) (snd (GetGeoTransform w a) i)"
  shows "compatibleDatasetProjections w a a
       \<and> compatibleDatasetProjectionsTransformAndSizes w a a"
  using assms
  by (auto simp add: compatibleDatasetProjectionsTransformAndSizes_def
      compatibleDatasetProjections_def numberWithValidTransforms_def transforms_loop_iff
      split: prod.split)

theorem reflexive_with_consistent_transform_witness:
  "compatibleDatasetProjections example_world 2 2
   \<and> compatibleDatasetProjectionsTransformAndSizes example_world 2 2"
  using reflexive_with_consistent_transform [of example_world 2]
  by (simp add: example_simps double_simps)

text \<open>
  C10. For two distinct datasets \<open>a\<close> and \<open>b\<close>, the result of
  \<open>compatibleDatasetProjections\<close> on \<open>(a, b)\<close> does not depend on the projection
  pointer of \<open>b\<close>: two worlds that differ only there give the same boolean. In the
  model a dataset answers every call of \<^verbatim>\<open>GetProjectionRef\<close> with the same pointer.
\<close>

theorem projections_independent_of_rhs:
  assumes "a \<noteq> b"
    and "datasets w' = (datasets w)(b := (datasets w b)\<lparr>projectionRef := p\<rparr>)"
  shows "compatibleDatasetProjections w' a b = compatibleDatasetProjections w a b"
  using assms by (simp add: compatibleDatasetProjections_def)

theorem projections_independent_of_rhs_witness:
  "compatibleDatasetProjections
     (example_world\<lparr>datasets := (datasets example_world)
        (2 := (datasets example_world 2)\<lparr>projectionRef := None\<rparr>)\<rparr>) 1 2
   = compatibleDatasetProjections example_world 1 2"
  using projections_independent_of_rhs [of 1 2 
     "example_world\<lparr>datasets := (datasets example_world)
        (2 := (datasets example_world 2)\<lparr>projectionRef := None\<rparr>)\<rparr>" example_world None]
  by simp

end
